theory Spec2Isabelle
  imports Main "HOL-Library.Word"
begin

unbundle bit_operations_syntax

section \<open>Values of the runtime\<close>

text \<open>
  A JavaScript string is a sequence of 16-bit code units; a Buffer is a mutable byte
  object that lives in a heap and is handed around by reference.
\<close>

type_synonym byte = "8 word"
type_synonym code_unit = "16 word"
type_synonym jsstring = "code_unit list"
type_synonym ref = nat

definition js :: "string \<Rightarrow> jsstring" where
  \<comment> \<open>an ASCII literal of the source as a JavaScript string\<close>
  "js s = map (\<lambda>c. of_nat (of_char c)) s"

subsection \<open>UTF-8, as \<open>Buffer.from(string)\<close> and \<open>Buffer.byteLength(string)\<close> produce it\<close>

definition is_high_surrogate :: "code_unit \<Rightarrow> bool" where
  "is_high_surrogate u = (0xD800 \<le> unat u \<and> unat u \<le> 0xDBFF)"

definition is_low_surrogate :: "code_unit \<Rightarrow> bool" where
  "is_low_surrogate u = (0xDC00 \<le> unat u \<and> unat u \<le> 0xDFFF)"

definition utf8_code_point :: "nat \<Rightarrow> byte list" where
  "utf8_code_point cp =
     (if cp < 0x80 then [of_nat cp]
      else if cp < 0x800 then [of_nat (0xC0 + cp div 64), of_nat (0x80 + cp mod 64)]
      else if cp < 0x10000 then
        [of_nat (0xE0 + cp div 4096), of_nat (0x80 + cp div 64 mod 64),
         of_nat (0x80 + cp mod 64)]
      else
        [of_nat (0xF0 + cp div 262144), of_nat (0x80 + cp div 4096 mod 64),
         of_nat (0x80 + cp div 64 mod 64), of_nat (0x80 + cp mod 64)])"

definition utf8_unit :: "code_unit \<Rightarrow> byte list" where
  \<comment> \<open>a code unit on its own; a lone surrogate becomes U+FFFD\<close>
  "utf8_unit u =
     (if is_high_surrogate u \<or> is_low_surrogate u then [0xEF, 0xBF, 0xBD]
      else utf8_code_point (unat u))"

fun utf8_encode :: "jsstring \<Rightarrow> byte list" where
  "utf8_encode [] = []"
| "utf8_encode [u] = utf8_unit u"
| "utf8_encode (u # v # us) =
     (if is_high_surrogate u \<and> is_low_surrogate v
      then utf8_code_point (0x10000 + (unat u - 0xD800) * 1024 + (unat v - 0xDC00))
             @ utf8_encode us
      else utf8_unit u @ utf8_encode (v # us))"

definition Buffer_byteLength :: "jsstring \<Rightarrow> nat" where
  "Buffer_byteLength s = length (utf8_encode s)"

subsection \<open>The heap of Buffers\<close>

record heap =
  cells :: "ref \<Rightarrow> byte list"
  top :: ref

definition new_Buffer :: "byte list \<Rightarrow> heap \<Rightarrow> ref \<times> heap" where
  \<comment> \<open>every allocating Buffer call returns a reference no earlier object has\<close>
  "new_Buffer bs w = (top w, w\<lparr>cells := (cells w)(top w := bs), top := Suc (top w)\<rparr>)"

definition Buffer_alloc :: "nat \<Rightarrow> heap \<Rightarrow> ref \<times> heap" where
  "Buffer_alloc n w = new_Buffer (replicate n 0) w"

definition Buffer_from :: "jsstring \<Rightarrow> heap \<Rightarrow> ref \<times> heap" where
  "Buffer_from s w = new_Buffer (utf8_encode s) w"

definition Buffer_concat :: "byte list list \<Rightarrow> heap \<Rightarrow> ref \<times> heap" where
  "Buffer_concat chunks w = new_Buffer (concat chunks) w"

subsection \<open>Body values\<close>

text \<open>
  \<open>blob.js\<close> is not part of the sources at hand: a Blob is taken as an object with
  the three things \<open>body.js\<close> reads from it, the backing buffer \<open>body[BUFFER]\<close>,
  \<open>body.type\<close> and \<open>body.size\<close>.
\<close>

record blob =
  BUFFER :: ref
  blob_type :: jsstring
  blob_size :: nat

text \<open>
  A Stream is an object with an identity. The form-data module's streams are told
  apart by duck typing: \<open>getBoundary\<close> and \<open>getLengthSync\<close> are \<open>None\<close> when the
  property is not a function and otherwise hold what the call returns;
  \<open>lengthRetrievers\<close> is the length of the \<open>_lengthRetrievers\<close> array when there
  is one, \<open>hasKnownLength\<close> what that method returns when there is one.
\<close>

record stream =
  sid :: ref
  getBoundary :: "jsstring option"
  getLengthSync :: "nat option"
  lengthRetrievers :: "nat option"
  hasKnownLength :: "bool option"

text \<open>
  Values of any other type, by the shapes the tests pass: a boolean, a plain object, and
  an object whose own \<open>toString\<close> returns the given string.
\<close>

datatype other = Boolean bool | PlainObject | Custom jsstring

fun String_js :: "other \<Rightarrow> jsstring" where
  "String_js (Boolean b) = (if b then js ''true'' else js ''false'')"
| "String_js PlainObject = js ''[object Object]''"
| "String_js (Custom s) = s"

datatype jsval =
    Undefined
  | Null
  | Str (str_of: jsstring)
  | BlobV (blob_of: blob)
  | BufferV (buffer_of: ref)
  | StreamV (stream_of: stream)
  | Other other

fun is_string :: "jsval \<Rightarrow> bool" where
  "is_string (Str s) = True"
| "is_string v = False"

fun instanceof_Blob :: "jsval \<Rightarrow> bool" where
  "instanceof_Blob (BlobV b) = True"
| "instanceof_Blob v = False"

fun Buffer_isBuffer :: "jsval \<Rightarrow> bool" where
  "Buffer_isBuffer (BufferV r) = True"
| "Buffer_isBuffer v = False"

fun instanceof_Stream :: "jsval \<Rightarrow> bool" where
  "instanceof_Stream (StreamV s) = True"
| "instanceof_Stream v = False"

section \<open>Errors (fetch-error.js)\<close>

record system_error =
  se_message :: jsstring
  se_code :: "jsstring option"

text \<open>
  The messages are template strings over the holder's URL and limits; they are kept as
  the template's name and its arguments.
\<close>

datatype message =
    BodyUsedAlready jsstring
  | ResponseTimeout jsstring int
  | InvalidResponseBody jsstring jsstring
  | ContentSizeOverLimit jsstring int
  | CannotCloneUsed

record fetch_error =
  fe_name :: string
  fe_message :: message
  fe_type :: string
  fe_code :: "jsstring option"
  fe_errno :: "jsstring option"

definition FetchError :: "message \<Rightarrow> string \<Rightarrow> system_error option \<Rightarrow> fetch_error" where
  "FetchError msg ty systemError =
     \<lparr>fe_name = ''FetchError'', fe_message = msg, fe_type = ty,
      fe_code = (case systemError of None \<Rightarrow> None | Some e \<Rightarrow> se_code e),
      fe_errno = (case systemError of None \<Rightarrow> None | Some e \<Rightarrow> se_code e)\<rparr>"

datatype err =
    Error message
  | Fetch fetch_error
  | TypeError
  | ParserError jsstring

fun err_type :: "err \<Rightarrow> string option" where
  \<comment> \<open>the \<open>type\<close> property of a thrown value; only a FetchError has one\<close>
  "err_type (Fetch e) = Some (fe_type e)"
| "err_type e = None"

section \<open>Body (body.js)\<close>

record holder =
  body :: jsval
  DISTURBED :: bool
  size_b :: int
  timeout :: int
  url :: jsstring
  content_type :: "jsstring option"

record opts =
  opts_size :: "int option"
  opts_timeout :: "int option"

definition Body :: "holder \<Rightarrow> jsval \<Rightarrow> opts \<Rightarrow> holder" where
  \<comment> \<open>called with \<open>.call(this, body, opts)\<close>: the holder comes in and goes out\<close>
  "Body this body0 opts =
     (let size0 = (case opts_size opts of None \<Rightarrow> 0 | Some n \<Rightarrow> n);
          timeout0 = (case opts_timeout opts of None \<Rightarrow> 0 | Some n \<Rightarrow> n);
          body1 = (case body0 of
                     Undefined \<Rightarrow> Null
                   | Null \<Rightarrow> Null
                   | Str s \<Rightarrow> Str s
                   | BlobV b \<Rightarrow> BlobV b
                   | BufferV r \<Rightarrow> BufferV r
                   | StreamV s \<Rightarrow> StreamV s
                   | Other v \<Rightarrow> Str (String_js v))
      in this\<lparr>body := body1, DISTURBED := False, size_b := size0, timeout := timeout0\<rparr>)"

definition bodyUsed :: "holder \<Rightarrow> bool" where
  "bodyUsed this = DISTURBED this"

subsection \<open>Promises and timers of the runtime\<close>

datatype 'a promise = Pending | Resolved 'a | Rejected err

fun resolve :: "'a promise \<Rightarrow> 'a \<Rightarrow> 'a promise" where
  \<comment> \<open>settling a settled promise does nothing\<close>
  "resolve Pending v = Resolved v"
| "resolve p v = p"

fun reject :: "'a promise \<Rightarrow> err \<Rightarrow> 'a promise" where
  "reject Pending e = Rejected e"
| "reject p e = p"

fun after :: "'a promise \<Rightarrow> ('a \<Rightarrow> err + 'b) \<Rightarrow> 'b promise" where
  \<comment> \<open>the rest of an async function behind its \<open>await\<close>; a throw there rejects\<close>
  "after Pending k = Pending"
| "after (Rejected e) k = Rejected e"
| "after (Resolved v) k = (case k v of Inl e \<Rightarrow> Rejected e | Inr x \<Rightarrow> Resolved x)"

datatype timer = Unset | Armed | Fired | Cleared

fun clearTimeout :: "timer \<Rightarrow> timer" where
  "clearTimeout Armed = Cleared"
| "clearTimeout t = t"

subsection \<open>consumeBody\<close>

text \<open>
  The variables the promise executor closes over, with the timer handle and the promise
  itself.
\<close>

record consumer =
  accum :: "byte list list"
  accumBytes :: nat
  abort :: bool
  resTimeout :: timer
  result :: "ref promise"

datatype consumption = Returned "ref promise" | Listening consumer

definition consumeBody :: "holder \<Rightarrow> heap \<Rightarrow> consumption \<times> holder \<times> heap" where
  \<comment> \<open>the synchronous part: everything up to the return of the promise\<close>
  "consumeBody this w =
     (if DISTURBED this
      then (Returned (Rejected (Error (BodyUsedAlready (url this)))), this, w)
      else
        let this1 = this\<lparr>DISTURBED := True\<rparr> in
        if body this1 = Null
        then (let (r, w1) = Buffer_alloc 0 w in (Returned (Resolved r), this1, w1))
        else if is_string (body this1)
        then (let (r, w1) = Buffer_from (str_of (body this1)) w
              in (Returned (Resolved r), this1, w1))
        else if instanceof_Blob (body this1)
        then (Returned (Resolved (BUFFER (blob_of (body this1)))), this1, w)
        else if Buffer_isBuffer (body this1)
        then (Returned (Resolved (buffer_of (body this1))), this1, w)
        else if \<not> instanceof_Stream (body this1)
        then (let (r, w1) = Buffer_alloc 0 w in (Returned (Resolved r), this1, w1))
        else
          (Listening
             \<lparr>accum = [], accumBytes = 0, abort = False,
              resTimeout = (if timeout this1 \<noteq> 0 then Armed else Unset),
              result = Pending\<rparr>,
           this1, w))"

text \<open>The four callbacks the executor registers.\<close>

definition on_timeout :: "holder \<Rightarrow> consumer \<Rightarrow> consumer" where
  "on_timeout this c =
     c\<lparr>abort := True,
       result := reject (result c)
         (Fetch (FetchError (ResponseTimeout (url this) (timeout this)) ''body-timeout'' None))\<rparr>"

definition on_error :: "holder \<Rightarrow> system_error \<Rightarrow> consumer \<Rightarrow> consumer" where
  "on_error this e c =
     c\<lparr>result := reject (result c)
         (Fetch (FetchError (InvalidResponseBody (url this) (se_message e)) ''system'' (Some e)))\<rparr>"

definition on_data :: "holder \<Rightarrow> byte list option \<Rightarrow> consumer \<Rightarrow> consumer" where
  "on_data this chunk c =
     (case chunk of
        None \<Rightarrow> c
      | Some ch \<Rightarrow>
          if abort c then c
          else if size_b this \<noteq> 0 \<and> int (accumBytes c + length ch) > size_b this
          then c\<lparr>abort := True,
                 result := reject (result c)
                   (Fetch (FetchError (ContentSizeOverLimit (url this) (size_b this))
                             ''max-size'' None))\<rparr>
          else c\<lparr>accumBytes := accumBytes c + length ch, accum := accum c @ [ch]\<rparr>)"

definition on_end :: "holder \<Rightarrow> consumer \<times> heap \<Rightarrow> consumer \<times> heap" where
  "on_end this cw =
     (case cw of (c, w) \<Rightarrow>
        if abort c then (c, w)
        else
          let t = clearTimeout (resTimeout c);
              (r, w1) = Buffer_concat (accum c) w
          in (c\<lparr>resTimeout := t, result := resolve (result c) r\<rparr>, w1))"

text \<open>
  What the event loop may deliver while the promise is out: the timer firing (only an
  armed timer fires, and it fires once), and the stream's \<open>error\<close>, \<open>data\<close> and
  \<open>end\<close> events.
\<close>

datatype event = TimerFired | StreamError system_error | Data "byte list option" | End

fun dispatch :: "holder \<Rightarrow> event \<Rightarrow> consumer \<times> heap \<Rightarrow> consumer \<times> heap" where
  "dispatch this TimerFired (c, w) =
     (if resTimeout c = Armed then (on_timeout this (c\<lparr>resTimeout := Fired\<rparr>), w) else (c, w))"
| "dispatch this (StreamError e) (c, w) = (on_error this e c, w)"
| "dispatch this (Data chunk) (c, w) = (on_data this chunk c, w)"
| "dispatch this End (c, w) = on_end this (c, w)"

definition run :: "holder \<Rightarrow> event list \<Rightarrow> consumer \<times> heap \<Rightarrow> consumer \<times> heap" where
  "run this evs cw = fold (dispatch this) evs cw"

fun await :: "event list \<Rightarrow> consumption \<times> holder \<times> heap \<Rightarrow> ref promise \<times> holder \<times> heap" where
  \<comment> \<open>the promise as it stands once the given events have been delivered\<close>
  "await evs (Returned p, this, w) = (p, this, w)"
| "await evs (Listening c, this, w) =
     (case run this evs (c, w) of (c1, w1) \<Rightarrow> (result c1, this, w1))"

subsection \<open>The five consumption methods\<close>

text \<open>
  \<open>Buffer.prototype.toString\<close>, \<open>String.prototype.toLowerCase\<close> and the
  json-parse-better-errors package are not part of the sources: they are parameters. The
  parser returns the parsed value or throws with a message.
\<close>

record 'j platform =
  toString :: "byte list \<Rightarrow> jsstring"
  toLowerCase :: "jsstring \<Rightarrow> jsstring"
  parseJson :: "jsstring \<Rightarrow> jsstring + 'j"

definition buffer :: "holder \<Rightarrow> heap \<Rightarrow> event list \<Rightarrow> ref promise \<times> holder \<times> heap" where
  "buffer this w evs = await evs (consumeBody this w)"

definition text_b ::
  "'j platform \<Rightarrow> holder \<Rightarrow> heap \<Rightarrow> event list \<Rightarrow> jsstring promise \<times> holder \<times> heap" where
  "text_b P this w evs =
     (case await evs (consumeBody this w) of (p, this1, w1) \<Rightarrow>
        (after p (\<lambda>buf. Inr (toString P (cells w1 buf))), this1, w1))"

definition json ::
  "'j platform \<Rightarrow> holder \<Rightarrow> heap \<Rightarrow> event list \<Rightarrow> 'j promise \<times> holder \<times> heap" where
  "json P this w evs =
     (case await evs (consumeBody this w) of (p, this1, w1) \<Rightarrow>
        (after p (\<lambda>buf. case parseJson P (toString P (cells w1 buf)) of
                           Inl m \<Rightarrow> Inl (ParserError m)
                         | Inr v \<Rightarrow> Inr v),
         this1, w1))"

definition blob_b ::
  "'j platform \<Rightarrow> holder \<Rightarrow> heap \<Rightarrow> event list \<Rightarrow> (jsstring \<times> ref) promise \<times> holder \<times> heap" where
  \<comment> \<open>the new Blob as its type and the buffer it is made to wrap\<close>
  "blob_b P this w evs =
     (let ct = (case content_type this of None \<Rightarrow> [] | Some v \<Rightarrow> v) in
      case await evs (consumeBody this w) of (p, this1, w1) \<Rightarrow>
        (after p (\<lambda>buf. Inr (toLowerCase P ct, buf)), this1, w1))"

definition arrayBuffer ::
  "holder \<Rightarrow> heap \<Rightarrow> event list \<Rightarrow> byte list promise \<times> holder \<times> heap" where
  \<comment> \<open>the slice is a new ArrayBuffer holding the buffer's bytes\<close>
  "arrayBuffer this w evs =
     (case await evs (consumeBody this w) of (p, this1, w1) \<Rightarrow>
        (after p (\<lambda>buf. Inr (cells w1 buf)), this1, w1))"

text \<open>
  \<open>Body.prototype\<close> as a table: a method's name, and what a call to it gives once
  the given events have been delivered.
\<close>

datatype body_method = buffer_m | text_m | json_m | blob_m | arrayBuffer_m

datatype 'j outcome =
    BufferOut ref
  | TextOut jsstring
  | JsonOut 'j
  | BlobOut "jsstring \<times> ref"
  | ArrayBufferOut "byte list"

fun on_first :: "('a \<Rightarrow> 'b) \<Rightarrow> 'a \<times> 'c \<Rightarrow> 'b \<times> 'c" where
  "on_first f (a, c) = (f a, c)"

fun invoke ::
  "'j platform \<Rightarrow> body_method \<Rightarrow> holder \<Rightarrow> heap \<Rightarrow> event list \<Rightarrow> 'j outcome promise \<times> holder \<times> heap" where
  "invoke P buffer_m this w evs = on_first (map_promise BufferOut) (buffer this w evs)"
| "invoke P text_m this w evs = on_first (map_promise TextOut) (text_b P this w evs)"
| "invoke P json_m this w evs = on_first (map_promise JsonOut) (json P this w evs)"
| "invoke P blob_m this w evs = on_first (map_promise BlobOut) (blob_b P this w evs)"
| "invoke P arrayBuffer_m this w evs = on_first (map_promise ArrayBufferOut) (arrayBuffer this w evs)"

subsection \<open>Terminal events\<close>

text \<open>
  The vocabulary of the properties below, not code of the library: which events end a
  consumption in a given state of the executor (a stream error, the armed timer firing, a
  chunk that would take the byte count over the cap, the end of the stream), and the
  outcome each of them asks the promise to take.
\<close>

definition max_size_error :: "holder \<Rightarrow> err" where
  "max_size_error this =
     Fetch (FetchError (ContentSizeOverLimit (url this) (size_b this)) ''max-size'' None)"


definition system_error_of :: "holder \<Rightarrow> system_error \<Rightarrow> err" where
  "system_error_of this e =
     Fetch (FetchError (InvalidResponseBody (url this) (se_message e)) ''system'' (Some e))"



section \<open>Helpers on a holder's body\<close>

subsection \<open>clone\<close>

text \<open>
  The streams of the runtime: which streams each stream has been piped into, and the
  identity the next new stream gets.
\<close>

record streams =
  pipes :: "ref \<Rightarrow> ref list"
  next_sid :: ref

definition new_PassThrough :: "streams \<Rightarrow> stream \<times> streams" where
  "new_PassThrough sw =
     (\<lparr>sid = next_sid sw, getBoundary = None, getLengthSync = None,
       lengthRetrievers = None, hasKnownLength = None\<rparr>,
      sw\<lparr>next_sid := Suc (next_sid sw)\<rparr>)"

definition pipe :: "stream \<Rightarrow> stream \<Rightarrow> streams \<Rightarrow> streams" where
  \<comment> \<open>\<open>src.pipe(dst)\<close>\<close>
  "pipe src dst sw = sw\<lparr>pipes := (pipes sw)(sid src := pipes sw (sid src) @ [sid dst])\<rparr>"

definition piped_chunks :: "streams \<Rightarrow> stream \<Rightarrow> byte list list \<Rightarrow> stream \<Rightarrow> byte list list" where
  \<comment> \<open>what a pass-through yields while \<open>src\<close> emits the given chunks: every chunk, in
      order, if \<open>src\<close> is piped into it\<close>
  "piped_chunks sw src chunks dst = (if sid dst \<in> set (pipes sw (sid src)) then chunks else [])"

definition clone :: "holder \<Rightarrow> streams \<Rightarrow> err + (jsval \<times> holder \<times> streams)" where
  "clone instance sw =
     (let body0 = body instance in
      if bodyUsed instance then Inl (Error CannotCloneUsed)
      else if instanceof_Stream body0 \<and> getBoundary (stream_of body0) = None
      then
        (let (p1, sw1) = new_PassThrough sw;
             (p2, sw2) = new_PassThrough sw1;
             sw3 = pipe (stream_of body0) p1 sw2;
             sw4 = pipe (stream_of body0) p2 sw3
         in Inr (StreamV p2, instance\<lparr>body := StreamV p1\<rparr>, sw4))
      else Inr (body0, instance, sw))"

subsection \<open>extractContentType and getTotalBytes\<close>

fun getBoundary_of :: "jsval \<Rightarrow> jsstring option" where
  \<comment> \<open>\<open>body.getBoundary\<close> when it is a function: what calling it returns\<close>
  "getBoundary_of (StreamV s) = getBoundary s"
| "getBoundary_of v = None"

definition extractContentType :: "holder \<Rightarrow> err + jsstring option" where
  \<comment> \<open>reading a property of \<open>undefined\<close> throws\<close>
  "extractContentType instance =
     (let body0 = body instance in
      if body0 = Null then Inr None
      else if is_string body0 then Inr (Some (js ''text/plain;charset=UTF-8''))
      else if instanceof_Blob body0
      then Inr (if blob_type (blob_of body0) = [] then None else Some (blob_type (blob_of body0)))
      else if Buffer_isBuffer body0 then Inr None
      else if body0 = Undefined then Inl TypeError
      else if getBoundary_of body0 \<noteq> None
      then Inr (Some (js ''multipart/form-data;boundary='' @ the (getBoundary_of body0)))
      else Inr None)"

fun truthy :: "jsval \<Rightarrow> bool" where
  "truthy Undefined = False"
| "truthy Null = False"
| "truthy (Str s) = (s \<noteq> [])"
| "truthy (Other (Boolean b)) = b"
| "truthy v = True"

fun getLengthSync_of :: "jsval \<Rightarrow> nat option" where
  "getLengthSync_of (StreamV s) = getLengthSync s"
| "getLengthSync_of v = None"

definition getTotalBytes :: "heap \<Rightarrow> holder \<Rightarrow> nat option" where
  "getTotalBytes w instance =
     (let body0 = body instance in
      if body0 = Null then Some 0
      else if is_string body0 then Some (Buffer_byteLength (str_of body0))
      else if instanceof_Blob body0 then Some (blob_size (blob_of body0))
      else if Buffer_isBuffer body0 then Some (length (cells w (buffer_of body0)))
      else if truthy body0 \<and> getLengthSync_of body0 \<noteq> None
      then
        (if lengthRetrievers (stream_of body0) = Some 0
            \<or> hasKnownLength (stream_of body0) = Some True
         then getLengthSync_of body0
         else None)
      else None)"

section \<open>The state a program starts from\<close>

definition empty_heap :: heap where
  "empty_heap = \<lparr>cells = (\<lambda>r. []), top = 0\<rparr>"

definition no_streams :: streams where
  "no_streams = \<lparr>pipes = (\<lambda>s. []), next_sid = 0\<rparr>"

section \<open>Properties\<close>

subsection \<open>Settled promises, and runs of events\<close>








subsection \<open>One consumption per holder\<close>

lemma consumeBody_disturbed:
  "DISTURBED this \<Longrightarrow>
   consumeBody this w = (Returned (Rejected (Error (BodyUsedAlready (url this)))), this, w)"
  by (simp add: consumeBody_def)

lemma consumeBody_flag: "DISTURBED (fst (snd (consumeBody this w)))"
  by (simp add: consumeBody_def Let_def split: prod.splits)

lemma consumeBody_url: "url (fst (snd (consumeBody this w))) = url this"
  by (simp add: consumeBody_def Let_def split: prod.splits)

lemma await_holder: "fst (snd (await evs x)) = fst (snd x)"
  by (cases "(evs, x)" rule: await.cases) (simp_all split: prod.splits)

lemma invoke_disturbed:
  "DISTURBED this \<Longrightarrow>
   invoke P m this w evs = (Rejected (Error (BodyUsedAlready (url this))), this, w)"
  by (cases m)
     (simp_all add: consumeBody_disturbed buffer_def text_b_def json_def blob_b_def
        arrayBuffer_def Let_def)

lemma invoke_holder: "fst (snd (invoke P m this w evs)) = fst (snd (consumeBody this w))"
proof -
  obtain p this1 w1 where a: "await evs (consumeBody this w) = (p, this1, w1)"
    by (cases "await evs (consumeBody this w)")
  have "this1 = fst (snd (consumeBody this w))"
    using await_holder [of evs "consumeBody this w"] a by simp
  then show ?thesis using a
    by (cases m) (simp_all add: buffer_def text_b_def json_def blob_b_def arrayBuffer_def Let_def)
qed

text \<open>
  Claim C1. Whatever the holder and its body, the synchronous part of consumeBody leaves
  \<open>bodyUsed\<close> true: the flag is set in what consumeBody returns, before any event
  is delivered. After a call to any of buffer(), text(), json(), blob() and arrayBuffer()
  (with any events delivered, or none) the holder is used, and a further call to any of
  the five is rejected with the body-used-already error at once, for every continuation
  of events, leaving holder and heap as they are.
\<close>

theorem body_consumed_at_most_once:
  "bodyUsed (fst (snd (consumeBody this w)))
   \<and> (case invoke P m1 this w evs1 of (p1, this1, w1) \<Rightarrow>
        bodyUsed this1
        \<and> invoke P m2 this1 w1 evs2
            = (Rejected (Error (BodyUsedAlready (url this))), this1, w1))"
proof -
  obtain p1 this1 w1 where a: "invoke P m1 this w evs1 = (p1, this1, w1)"
    by (cases "invoke P m1 this w evs1")
  have h: "this1 = fst (snd (consumeBody this w))"
    using invoke_holder [of P m1 this w evs1] a by simp
  have d: "DISTURBED this1" using h consumeBody_flag by simp
  have u: "url this1 = url this" using h consumeBody_url by simp
  show ?thesis
    using a d u invoke_disturbed [OF d, of P m2 w1 evs2] consumeBody_flag [of this w]
    by (simp add: bodyUsed_def)
qed

theorem body_consumed_at_most_once_witness:
  "bodyUsed (fst (snd (consumeBody
      \<lparr>body = Str [97], DISTURBED = False, size_b = 0, timeout = 0, url = [],
       content_type = None\<rparr> empty_heap)))
   \<and> (case invoke \<lparr>toString = map ucast, toLowerCase = id, parseJson = Inr\<rparr> text_m
             \<lparr>body = Str [97], DISTURBED = False, size_b = 0, timeout = 0, url = [],
              content_type = None\<rparr> empty_heap [] of
        (p1, this1, w1) \<Rightarrow>
          bodyUsed this1
          \<and> invoke \<lparr>toString = map ucast, toLowerCase = id, parseJson = Inr\<rparr> json_m
                this1 w1 [End]
              = (Rejected (Error (BodyUsedAlready
                   (url \<lparr>body = Str [97], DISTURBED = False, size_b = 0, timeout = 0,
                         url = [], content_type = None\<rparr>))), this1, w1))"
  by (rule body_consumed_at_most_once)

subsection \<open>What a replayable body is consumed to\<close>

text \<open>
  Claim C3. Consuming a body that has not been used gives: for a null body a new, empty
  buffer; for a string body a new buffer holding the string's UTF-8 encoding; for a
  buffer body that very buffer (the same reference, and a heap in which nothing was
  allocated or written); for a Blob body the buffer the Blob is backed by, likewise
  without a copy.
\<close>

theorem consumeBody_replayable:
  "\<not> DISTURBED this \<Longrightarrow>
   (body this = Null \<longrightarrow>
      consumeBody this w
        = (Returned (Resolved (top w)), this\<lparr>DISTURBED := True\<rparr>,
           w\<lparr>cells := (cells w)(top w := []), top := Suc (top w)\<rparr>))
   \<and> (body this = Str s \<longrightarrow>
      consumeBody this w
        = (Returned (Resolved (top w)), this\<lparr>DISTURBED := True\<rparr>,
           w\<lparr>cells := (cells w)(top w := utf8_encode s), top := Suc (top w)\<rparr>))
   \<and> (body this = BufferV r \<longrightarrow>
      consumeBody this w = (Returned (Resolved r), this\<lparr>DISTURBED := True\<rparr>, w))
   \<and> (body this = BlobV b \<longrightarrow>
      consumeBody this w = (Returned (Resolved (BUFFER b)), this\<lparr>DISTURBED := True\<rparr>, w))"
  by (simp add: consumeBody_def Let_def Buffer_from_def Buffer_alloc_def new_Buffer_def)

theorem consumeBody_replayable_witness:
  "consumeBody \<lparr>body = Null, DISTURBED = False, size_b = 0, timeout = 0, url = [],
                content_type = None\<rparr> empty_heap
     = (Returned (Resolved 0),
        \<lparr>body = Null, DISTURBED = True, size_b = 0, timeout = 0, url = [],
         content_type = None\<rparr>,
        empty_heap\<lparr>cells := (cells empty_heap)(0 := []), top := 1\<rparr>)
   \<and> consumeBody \<lparr>body = Str [0x68, 0xE9], DISTURBED = False, size_b = 0, timeout = 0,
                  url = [], content_type = None\<rparr> empty_heap
     = (Returned (Resolved 0),
        \<lparr>body = Str [0x68, 0xE9], DISTURBED = True, size_b = 0, timeout = 0, url = [],
         content_type = None\<rparr>,
        empty_heap\<lparr>cells := (cells empty_heap)(0 := [0x68, 0xC3, 0xA9]), top := 1\<rparr>)
   \<and> consumeBody \<lparr>body = BufferV 4, DISTURBED = False, size_b = 0, timeout = 0, url = [],
                  content_type = None\<rparr> empty_heap
     = (Returned (Resolved 4),
        \<lparr>body = BufferV 4, DISTURBED = True, size_b = 0, timeout = 0, url = [],
         content_type = None\<rparr>,
        empty_heap)
   \<and> consumeBody \<lparr>body = BlobV \<lparr>BUFFER = 7, blob_type = [], blob_size = 0\<rparr>,
                  DISTURBED = False, size_b = 0, timeout = 0, url = [],
                  content_type = None\<rparr> empty_heap
     = (Returned (Resolved 7),
        \<lparr>body = BlobV \<lparr>BUFFER = 7, blob_type = [], blob_size = 0\<rparr>, DISTURBED = True,
         size_b = 0, timeout = 0, url = [], content_type = None\<rparr>,
        empty_heap)"
  using
    consumeBody_replayable [of "\<lparr>body = Null, DISTURBED = False, size_b = 0, timeout = 0,
      url = [], content_type = None\<rparr>" empty_heap]
    consumeBody_replayable [of "\<lparr>body = Str [0x68, 0xE9], DISTURBED = False, size_b = 0,
      timeout = 0, url = [], content_type = None\<rparr>" empty_heap "[0x68, 0xE9]"]
    consumeBody_replayable [of "\<lparr>body = BufferV 4, DISTURBED = False, size_b = 0,
      timeout = 0, url = [], content_type = None\<rparr>" empty_heap _ 4]
    consumeBody_replayable [of "\<lparr>body = BlobV \<lparr>BUFFER = 7, blob_type = [], blob_size = 0\<rparr>,
      DISTURBED = False, size_b = 0, timeout = 0, url = [], content_type = None\<rparr>" empty_heap
      _ _ "\<lparr>BUFFER = 7, blob_type = [], blob_size = 0\<rparr>"]
  by (simp add: empty_heap_def utf8_unit_def utf8_code_point_def is_high_surrogate_def
      is_low_surrogate_def)

subsection \<open>What the constructor stores\<close>

lemma utf8_object_Object:
  "utf8_encode (js ''[object Object]'')
     = [91, 111, 98, 106, 101, 99, 116, 32, 79, 98, 106, 101, 99, 116, 93]"
  by (simp add: js_def utf8_unit_def utf8_code_point_def is_high_surrogate_def
      is_low_surrogate_def)

text \<open>
  Claim C10. The Body constructor stores null for undefined and for null, and stores
  \<open>String(body)\<close> for every value that is not a string, a Blob, a Buffer or a
  Stream. Consuming the holder it built from such a value gives a new buffer with the
  UTF-8 bytes of that string; for a plain object these are the 15 bytes of
  \<open>[object Object]\<close>. Whatever value the constructor was given, the body it stores is
  null, a string, a Blob, a Buffer or a Stream, so the test that guards the branch of
  consumeBody for any other body (not null, not a string, not a Blob, not a Buffer and
  not a Stream) is false for it.
\<close>

theorem Body_normalizes_body:
  "body (Body this Undefined opts) = Null
   \<and> body (Body this Null opts) = Null
   \<and> body (Body this (Other v) opts) = Str (String_js v)
   \<and> consumeBody (Body this (Other v) opts) w
       = (Returned (Resolved (top w)),
          (Body this (Other v) opts)\<lparr>DISTURBED := True\<rparr>,
          w\<lparr>cells := (cells w)(top w := utf8_encode (String_js v)), top := Suc (top w)\<rparr>)
   \<and> utf8_encode (String_js PlainObject)
       = [91, 111, 98, 106, 101, 99, 116, 32, 79, 98, 106, 101, 99, 116, 93]
   \<and> (body (Body this x opts) = Null \<or> is_string (body (Body this x opts))
       \<or> instanceof_Blob (body (Body this x opts)) \<or> Buffer_isBuffer (body (Body this x opts))
       \<or> instanceof_Stream (body (Body this x opts)))"
proof -
  have a: "body (Body this Undefined opts) = Null" "body (Body this Null opts) = Null"
    "body (Body this (Other v) opts) = Str (String_js v)"
    by (simp_all add: Body_def Let_def)
  have d: "\<not> DISTURBED (Body this (Other v) opts)"
    by (simp add: Body_def Let_def)
  have c: "consumeBody (Body this (Other v) opts) w
       = (Returned (Resolved (top w)),
          (Body this (Other v) opts)\<lparr>DISTURBED := True\<rparr>,
          w\<lparr>cells := (cells w)(top w := utf8_encode (String_js v)), top := Suc (top w)\<rparr>)"
    using a(3) d by (simp add: consumeBody_def Let_def Buffer_from_def new_Buffer_def)
  have e: "utf8_encode (String_js PlainObject)
       = [91, 111, 98, 106, 101, 99, 116, 32, 79, 98, 106, 101, 99, 116, 93]"
    using utf8_object_Object by simp
  have f: "body (Body this x opts) = Null \<or> is_string (body (Body this x opts))
       \<or> instanceof_Blob (body (Body this x opts)) \<or> Buffer_isBuffer (body (Body this x opts))
       \<or> instanceof_Stream (body (Body this x opts))"
    by (cases x) (simp_all add: Body_def Let_def)
  show ?thesis using a c e f by blast
qed

theorem Body_normalizes_body_witness:
  "body (Body \<lparr>body = Undefined, DISTURBED = True, size_b = 3, timeout = 4, url = [],
               content_type = None\<rparr> (Other PlainObject)
           \<lparr>opts_size = None, opts_timeout = Some 5\<rparr>)
     = Str [91, 111, 98, 106, 101, 99, 116, 32, 79, 98, 106, 101, 99, 116, 93]
   \<and> fst (consumeBody
        (Body \<lparr>body = Undefined, DISTURBED = True, size_b = 3, timeout = 4, url = [],
               content_type = None\<rparr> (Other PlainObject)
           \<lparr>opts_size = None, opts_timeout = Some 5\<rparr>) empty_heap)
     = Returned (Resolved 0)
   \<and> cells (snd (snd (consumeBody
        (Body \<lparr>body = Undefined, DISTURBED = True, size_b = 3, timeout = 4, url = [],
               content_type = None\<rparr> (Other PlainObject)
           \<lparr>opts_size = None, opts_timeout = Some 5\<rparr>) empty_heap))) 0
     = [91, 111, 98, 106, 101, 99, 116, 32, 79, 98, 106, 101, 99, 116, 93]"
  using Body_normalizes_body [of "\<lparr>body = Undefined, DISTURBED = True, size_b = 3,
      timeout = 4, url = [], content_type = None\<rparr>" "\<lparr>opts_size = None, opts_timeout = Some 5\<rparr>"
      PlainObject empty_heap]
  by (simp add: empty_heap_def js_def)

subsection \<open>Content type and length of a body\<close>

text \<open>
  Claim C8. extractContentType returns \<open>text/plain;charset=UTF-8\<close> for a string
  body; for a Blob body its type, or null when the type is empty; null for a buffer body;
  for a body with a getBoundary method \<open>multipart/form-data;boundary=\<close> followed by
  what getBoundary returns; and null for a stream without that method.
\<close>

theorem extractContentType_by_body:
  "extractContentType (inst\<lparr>body := Str s\<rparr>) = Inr (Some (js ''text/plain;charset=UTF-8''))
   \<and> extractContentType (inst\<lparr>body := BlobV b\<rparr>)
       = Inr (if blob_type b = [] then None else Some (blob_type b))
   \<and> extractContentType (inst\<lparr>body := BufferV r\<rparr>) = Inr None
   \<and> extractContentType (inst\<lparr>body := StreamV (st\<lparr>getBoundary := Some bd\<rparr>)\<rparr>)
       = Inr (Some (js ''multipart/form-data;boundary='' @ bd))
   \<and> extractContentType (inst\<lparr>body := StreamV (st\<lparr>getBoundary := None\<rparr>)\<rparr>) = Inr None"
  by (simp add: extractContentType_def Let_def)

theorem extractContentType_by_body_witness:
  "extractContentType
     \<lparr>body = StreamV \<lparr>sid = 0, getBoundary = Some [45, 45, 97], getLengthSync = Some 10,
                      lengthRetrievers = Some 0, hasKnownLength = None\<rparr>,
      DISTURBED = False, size_b = 0, timeout = 0, url = [], content_type = None\<rparr>
     = Inr (Some (js ''multipart/form-data;boundary='' @ [45, 45, 97]))
   \<and> extractContentType
       \<lparr>body = BlobV \<lparr>BUFFER = 0, blob_type = [], blob_size = 0\<rparr>,
        DISTURBED = False, size_b = 0, timeout = 0, url = [], content_type = None\<rparr>
     = Inr None"
  using
    extractContentType_by_body [where
      inst = "\<lparr>body = Null, DISTURBED = False, size_b = 0, timeout = 0, url = [],
        content_type = None\<rparr>" and b = "\<lparr>BUFFER = 0, blob_type = [], blob_size = 0\<rparr>"
      and st = "\<lparr>sid = 0, getBoundary = None, getLengthSync = Some 10,
        lengthRetrievers = Some 0, hasKnownLength = None\<rparr>" and bd = "[45, 45, 97]"]
  by simp

text \<open>
  Claim C9. getTotalBytes returns the UTF-8 byte length of a string body, the size of a
  Blob body and the length of a buffer body. A form is recognised here by its
  getLengthSync method: for such a body the result is what getLengthSync returns if the
  form has an empty list of length retrievers or its hasKnownLength returns true, and
  null if neither holds. For a stream without that method the result is null.
\<close>

theorem getTotalBytes_by_body:
  "getTotalBytes w (inst\<lparr>body := Str s\<rparr>) = Some (length (utf8_encode s))
   \<and> getTotalBytes w (inst\<lparr>body := BlobV b\<rparr>) = Some (blob_size b)
   \<and> getTotalBytes w (inst\<lparr>body := BufferV r\<rparr>) = Some (length (cells w r))
   \<and> getTotalBytes w (inst\<lparr>body := StreamV (st\<lparr>getLengthSync := Some n\<rparr>)\<rparr>)
       = (if lengthRetrievers st = Some 0 \<or> hasKnownLength st = Some True then Some n
          else None)
   \<and> getTotalBytes w (inst\<lparr>body := StreamV (st\<lparr>getLengthSync := None\<rparr>)\<rparr>) = None"
  by (simp add: getTotalBytes_def Let_def Buffer_byteLength_def)

theorem getTotalBytes_by_body_witness:
  "getTotalBytes empty_heap
     \<lparr>body = StreamV \<lparr>sid = 0, getBoundary = Some [45, 45, 97], getLengthSync = Some 10,
                      lengthRetrievers = None, hasKnownLength = Some True\<rparr>,
      DISTURBED = False, size_b = 0, timeout = 0, url = [], content_type = None\<rparr>
     = Some 10
   \<and> getTotalBytes empty_heap
     \<lparr>body = StreamV \<lparr>sid = 0, getBoundary = Some [45, 45, 97], getLengthSync = Some 10,
                      lengthRetrievers = Some 2, hasKnownLength = Some False\<rparr>,
      DISTURBED = False, size_b = 0, timeout = 0, url = [], content_type = None\<rparr>
     = None
   \<and> getTotalBytes empty_heap
     \<lparr>body = Str [0x68, 0xE9], DISTURBED = False, size_b = 0, timeout = 0, url = [],
      content_type = None\<rparr>
     = Some 3"
  using
    getTotalBytes_by_body [where w = empty_heap and
      inst = "\<lparr>body = Null, DISTURBED = False, size_b = 0, timeout = 0, url = [],
        content_type = None\<rparr>" and s = "[0x68, 0xE9]" and
      st = "\<lparr>sid = 0, getBoundary = Some [45, 45, 97], getLengthSync = None,
        lengthRetrievers = None, hasKnownLength = Some True\<rparr>" and n = 10]
    getTotalBytes_by_body [where w = empty_heap and
      inst = "\<lparr>body = Null, DISTURBED = False, size_b = 0, timeout = 0, url = [],
        content_type = None\<rparr>" and
      st = "\<lparr>sid = 0, getBoundary = Some [45, 45, 97], getLengthSync = None,
        lengthRetrievers = Some 2, hasKnownLength = Some False\<rparr>" and n = 10]
  by (simp add: utf8_unit_def utf8_code_point_def is_high_surrogate_def
      is_low_surrogate_def)

subsection \<open>The size cap on a stream body\<close>




lemma consumeBody_stream:
  "\<not> DISTURBED this \<Longrightarrow> body this = StreamV st \<Longrightarrow>
   consumeBody this w
     = (Listening \<lparr>accum = [], accumBytes = 0, abort = False,
            resTimeout = (if timeout this \<noteq> 0 then Armed else Unset), result = Pending\<rparr>,
        this\<lparr>DISTURBED := True\<rparr>, w)"
  by (simp add: consumeBody_def Let_def)




subsection \<open>The first terminal event settles the promise\<close>














subsection \<open>The body timer\<close>

text \<open>
  Claim C6 does not hold of consumeBody. With a timeout of 100 and a cap of 5, the timer
  is armed when consumption starts. After a stream error the promise is rejected with
  system and the timer is still armed; after a chunk of 6 bytes the promise is rejected
  with max-size and the timer is still armed, also after the end of the stream. Only the
  end of a stream that was not aborted clears the timer, and the timer firing uses it up.
\<close>

theorem body_timer_left_armed:
  "(case consumeBody
      \<lparr>body = StreamV \<lparr>sid = 0, getBoundary = None, getLengthSync = None,
                       lengthRetrievers = None, hasKnownLength = None\<rparr>,
       DISTURBED = False, size_b = 5, timeout = 100, url = [], content_type = None\<rparr>
      empty_heap of
      (Returned p, this1, w0) \<Rightarrow> False
    | (Listening c0, this1, w0) \<Rightarrow>
        resTimeout c0 = Armed
        \<and> result (fst (run this1 [StreamError \<lparr>se_message = [], se_code = None\<rparr>] (c0, w0)))
            = Rejected (system_error_of this1 \<lparr>se_message = [], se_code = None\<rparr>)
        \<and> resTimeout (fst (run this1 [StreamError \<lparr>se_message = [], se_code = None\<rparr>] (c0, w0)))
            = Armed
        \<and> result (fst (run this1 [Data (Some [1, 2, 3, 4, 5, 6])] (c0, w0)))
            = Rejected (max_size_error this1)
        \<and> resTimeout (fst (run this1 [Data (Some [1, 2, 3, 4, 5, 6])] (c0, w0))) = Armed
        \<and> resTimeout (fst (run this1 [Data (Some [1, 2, 3, 4, 5, 6]), End] (c0, w0))) = Armed
        \<and> resTimeout (fst (run this1 [Data (Some [1, 2, 3]), End] (c0, w0))) = Cleared
        \<and> resTimeout (fst (run this1 [TimerFired] (c0, w0))) = Fired)"
  by (simp add: consumeBody_def Let_def run_def on_error_def on_data_def on_end_def
      on_timeout_def system_error_of_def max_size_error_def Buffer_concat_def new_Buffer_def)

subsection \<open>clone\<close>

text \<open>
  Claim C5. clone fails exactly if the body is used. For an unused holder whose body is
  a stream without getBoundary, clone makes two new pass-through streams (with the next
  two identities, which no stream made before has), pipes the body into the first and
  then into the second, stores the first as the holder's body and returns the second;
  the two are different streams, and each yields every chunk the original emits. For an
  unused holder with any other body, clone returns that body itself and leaves the holder
  and the streams as they are.
\<close>

theorem clone_body:
  "isl (clone inst sw) = bodyUsed inst
   \<and> (\<not> bodyUsed inst \<and> body inst = StreamV s \<and> getBoundary s = None \<longrightarrow>
        clone inst sw
          = Inr (StreamV \<lparr>sid = Suc (next_sid sw), getBoundary = None, getLengthSync = None,
                          lengthRetrievers = None, hasKnownLength = None\<rparr>,
                 inst\<lparr>body := StreamV \<lparr>sid = next_sid sw, getBoundary = None,
                          getLengthSync = None, lengthRetrievers = None,
                          hasKnownLength = None\<rparr>\<rparr>,
                 sw\<lparr>pipes := (pipes sw)(sid s := pipes sw (sid s) @ [next_sid sw, Suc (next_sid sw)]),
                    next_sid := Suc (Suc (next_sid sw))\<rparr>))
   \<and> (\<not> bodyUsed inst \<and> body inst = StreamV s \<and> getBoundary s = None \<longrightarrow>
        (case clone inst sw of
           Inl e \<Rightarrow> False
         | Inr (body2, inst1, sw1) \<Rightarrow>
             body2 \<noteq> body inst1
             \<and> piped_chunks sw1 s chunks (stream_of (body inst1)) = chunks
             \<and> piped_chunks sw1 s chunks (stream_of body2) = chunks))
   \<and> (\<not> bodyUsed inst \<and> (\<forall>s. body inst = StreamV s \<longrightarrow> getBoundary s \<noteq> None) \<longrightarrow>
        clone inst sw = Inr (body inst, inst, sw))"
proof -
  have p1: "isl (clone inst sw) = bodyUsed inst"
    by (simp add: clone_def Let_def split: prod.splits)
  have p2: "clone inst sw
          = Inr (StreamV \<lparr>sid = Suc (next_sid sw), getBoundary = None, getLengthSync = None,
                          lengthRetrievers = None, hasKnownLength = None\<rparr>,
                 inst\<lparr>body := StreamV \<lparr>sid = next_sid sw, getBoundary = None,
                          getLengthSync = None, lengthRetrievers = None,
                          hasKnownLength = None\<rparr>\<rparr>,
                 sw\<lparr>pipes := (pipes sw)(sid s := pipes sw (sid s) @ [next_sid sw, Suc (next_sid sw)]),
                    next_sid := Suc (Suc (next_sid sw))\<rparr>)"
    if "\<not> bodyUsed inst \<and> body inst = StreamV s \<and> getBoundary s = None"
    using that by (simp add: clone_def Let_def new_PassThrough_def pipe_def)
  have p3: "(case clone inst sw of
           Inl e \<Rightarrow> False
         | Inr (body2, inst1, sw1) \<Rightarrow>
             body2 \<noteq> body inst1
             \<and> piped_chunks sw1 s chunks (stream_of (body inst1)) = chunks
             \<and> piped_chunks sw1 s chunks (stream_of body2) = chunks)"
    if h: "\<not> bodyUsed inst \<and> body inst = StreamV s \<and> getBoundary s = None"
    using p2 [OF h] by (simp add: piped_chunks_def)
  have p4: "clone inst sw = Inr (body inst, inst, sw)"
    if "\<not> bodyUsed inst \<and> (\<forall>s. body inst = StreamV s \<longrightarrow> getBoundary s \<noteq> None)"
    using that by (cases "body inst") (auto simp: clone_def Let_def)
  show ?thesis using p1 p2 p3 p4 by blast
qed

theorem clone_body_witness:
  "clone \<lparr>body = StreamV \<lparr>sid = 0, getBoundary = None, getLengthSync = None,
         lengthRetrievers = None, hasKnownLength = None\<rparr>,
       DISTURBED = False, size_b = 5, timeout = 0, url = [], content_type = None\<rparr> (no_streams\<lparr>next_sid := 1\<rparr>)
     = Inr (StreamV \<lparr>sid = 2, getBoundary = None, getLengthSync = None,
                     lengthRetrievers = None, hasKnownLength = None\<rparr>,
            \<lparr>body = StreamV \<lparr>sid = 1, getBoundary = None, getLengthSync = None,
                     lengthRetrievers = None, hasKnownLength = None\<rparr>,
             DISTURBED = False, size_b = 5, timeout = 0, url = [], content_type = None\<rparr>,
            no_streams\<lparr>pipes := (pipes no_streams)(0 := [1, 2]), next_sid := 3\<rparr>)
   \<and> clone \<lparr>body = BufferV 4, DISTURBED = False, size_b = 0, timeout = 0, url = [],
            content_type = None\<rparr> (no_streams\<lparr>next_sid := 1\<rparr>)
     = Inr (BufferV 4,
            \<lparr>body = BufferV 4, DISTURBED = False, size_b = 0, timeout = 0, url = [],
             content_type = None\<rparr>,
            no_streams\<lparr>next_sid := 1\<rparr>)
   \<and> isl (clone \<lparr>body = BufferV 4, DISTURBED = True, size_b = 0, timeout = 0, url = [],
            content_type = None\<rparr> (no_streams\<lparr>next_sid := 1\<rparr>))"
  using
    clone_body [where inst = "\<lparr>body = StreamV \<lparr>sid = 0, getBoundary = None, getLengthSync = None,
         lengthRetrievers = None, hasKnownLength = None\<rparr>,
       DISTURBED = False, size_b = 5, timeout = 0, url = [], content_type = None\<rparr>"
      and sw = "no_streams\<lparr>next_sid := 1\<rparr>"
      and s = "\<lparr>sid = 0, getBoundary = None, getLengthSync = None,
         lengthRetrievers = None, hasKnownLength = None\<rparr>"]
    clone_body [where inst = "\<lparr>body = BufferV 4, DISTURBED = False, size_b = 0, timeout = 0,
      url = [], content_type = None\<rparr>" and sw = "no_streams\<lparr>next_sid := 1\<rparr>"]
    clone_body [where inst = "\<lparr>body = BufferV 4, DISTURBED = True, size_b = 0, timeout = 0,
      url = [], content_type = None\<rparr>" and sw = "no_streams\<lparr>next_sid := 1\<rparr>"]
  by (simp add: bodyUsed_def no_streams_def numeral_2_eq_2 numeral_3_eq_3)

subsection \<open>json\<close>

text \<open>
  Claim C4, as the code has it. json() resolves to what the parser returns for the text
  (toString) of the consumed bytes, which text() resolves to. When the parser throws,
  json() is rejected with the parser's own error: it is not a FetchError and has no type,
  so in particular not the type invalid-json. When consumption fails, json() fails with
  the same error.
\<close>

theorem json_parses_consumed_text:
  "(buffer this w evs = (Resolved r, this1, w1) \<and> parseJson P (toString P (cells w1 r)) = Inr v \<longrightarrow>
      text_b P this w evs = (Resolved (toString P (cells w1 r)), this1, w1)
      \<and> json P this w evs = (Resolved v, this1, w1))
   \<and> (buffer this w evs = (Resolved r, this1, w1) \<and> parseJson P (toString P (cells w1 r)) = Inl m \<longrightarrow>
      json P this w evs = (Rejected (ParserError m), this1, w1)
      \<and> err_type (ParserError m) = None)
   \<and> (buffer this w evs = (Rejected e, this1, w1) \<longrightarrow>
      json P this w evs = (Rejected e, this1, w1))"
  by (simp add: buffer_def json_def text_b_def)

theorem json_parses_consumed_text_witness:
  "json \<lparr>toString = map ucast, toLowerCase = id, parseJson = (Inr :: jsstring \<Rightarrow> jsstring + jsstring)\<rparr>
     \<lparr>body = Str [49], DISTURBED = False, size_b = 0, timeout = 0, url = [],
      content_type = None\<rparr> empty_heap []
     = (Resolved [49],
        \<lparr>body = Str [49], DISTURBED = True, size_b = 0, timeout = 0, url = [],
         content_type = None\<rparr>,
        empty_heap\<lparr>cells := (cells empty_heap)(0 := [49]), top := 1\<rparr>)
   \<and> json \<lparr>toString = map ucast, toLowerCase = id, parseJson = (Inl :: jsstring \<Rightarrow> jsstring + jsstring)\<rparr>
     \<lparr>body = Str [49], DISTURBED = False, size_b = 0, timeout = 0, url = [],
      content_type = None\<rparr> empty_heap []
     = (Rejected (ParserError [49]),
        \<lparr>body = Str [49], DISTURBED = True, size_b = 0, timeout = 0, url = [],
         content_type = None\<rparr>,
        empty_heap\<lparr>cells := (cells empty_heap)(0 := [49]), top := 1\<rparr>)"
proof -
  have b: "buffer \<lparr>body = Str [49], DISTURBED = False, size_b = 0, timeout = 0, url = [],
      content_type = None\<rparr> empty_heap []
     = (Resolved 0,
        \<lparr>body = Str [49], DISTURBED = True, size_b = 0, timeout = 0, url = [],
         content_type = None\<rparr>,
        empty_heap\<lparr>cells := (cells empty_heap)(0 := [49]), top := 1\<rparr>)"
    by (simp add: buffer_def consumeBody_def Let_def Buffer_from_def new_Buffer_def
        empty_heap_def utf8_unit_def utf8_code_point_def is_high_surrogate_def
        is_low_surrogate_def)
  show ?thesis
    using b
      json_parses_consumed_text [where
        P = "\<lparr>toString = map ucast, toLowerCase = id, parseJson = (Inr :: jsstring \<Rightarrow> jsstring + jsstring)\<rparr>"
        and this = "\<lparr>body = Str [49], DISTURBED = False, size_b = 0, timeout = 0, url = [],
          content_type = None\<rparr>" and w = empty_heap and evs = "[]" and r = 0
        and ?this1.0 = "\<lparr>body = Str [49], DISTURBED = True, size_b = 0, timeout = 0, url = [],
          content_type = None\<rparr>"
        and ?w1.0 = "empty_heap\<lparr>cells := (cells empty_heap)(0 := [49]), top := 1\<rparr>"
        and v = "[49]"]
      json_parses_consumed_text [where
        P = "\<lparr>toString = map ucast, toLowerCase = id, parseJson = (Inl :: jsstring \<Rightarrow> jsstring + jsstring)\<rparr>"
        and this = "\<lparr>body = Str [49], DISTURBED = False, size_b = 0, timeout = 0, url = [],
          content_type = None\<rparr>" and w = empty_heap and evs = "[]" and r = 0
        and ?this1.0 = "\<lparr>body = Str [49], DISTURBED = True, size_b = 0, timeout = 0, url = [],
          content_type = None\<rparr>"
        and ?w1.0 = "empty_heap\<lparr>cells := (cells empty_heap)(0 := [49]), top := 1\<rparr>"
        and m = "[49]"]
    by (simp add: empty_heap_def)
qed

text \<open>
  Claim C4 as the specification words it fails: the body \<open>{\<close> with a parser that
  rejects it makes json() fail with the parser's error, whose type is not invalid-json.
\<close>

theorem json_failure_is_not_invalid_json:
  "json \<lparr>toString = map ucast, toLowerCase = id, parseJson = (Inl :: jsstring \<Rightarrow> jsstring + unit)\<rparr>
     \<lparr>body = Str [123], DISTURBED = False, size_b = 0, timeout = 0, url = [],
      content_type = None\<rparr> empty_heap []
     = (Rejected (ParserError [123]),
        \<lparr>body = Str [123], DISTURBED = True, size_b = 0, timeout = 0, url = [],
         content_type = None\<rparr>,
        empty_heap\<lparr>cells := (cells empty_heap)(0 := [123]), top := 1\<rparr>)
   \<and> err_type (ParserError [123]) \<noteq> Some ''invalid-json''"
  by (simp add: json_def consumeBody_def Let_def Buffer_from_def new_Buffer_def empty_heap_def
      utf8_unit_def utf8_code_point_def is_high_surrogate_def is_low_surrogate_def)

end
